theory Spec2Isabelle
  imports Complex_Main "HOL-Library.Multiset"
begin

section \<open>Python primitives used by \<^verbatim>\<open>pysph/solver/application.py\<close>\<close>

text \<open>
  Exceptions are values. \<open>RuntimeError\<close> and \<open>ValueError\<close> are raised by the
  application itself or by the builtin \<^verbatim>\<open>int()\<close>; \<open>IndexError\<close> comes from
  indexing an empty string; \<open>KeyError\<close> from a dictionary lookup; \<open>AttributeError\<close> from an
  attribute of \<^verbatim>\<open>None\<close>; \<open>Raised n\<close> is
  an exception of class \<open>n\<close> that a collaborator (the particle factory, the
  checkpoint loader, the partitioning service) raised and that the application lets
  through untouched.
\<close>

datatype exn = RuntimeError | ValueError | IndexError | KeyError | AttributeError | Raised string

text \<open>\<^verbatim>\<open>s.find(c)\<close> for a one-character needle: the first index, or -1.\<close>

fun find_from :: "char \<Rightarrow> string \<Rightarrow> int \<Rightarrow> int" where
  "find_from c [] i = -1"
| "find_from c (x # xs) i = (if x = c then i else find_from c xs (i + 1))"

definition find_chr :: "string \<Rightarrow> char \<Rightarrow> int" where
  "find_chr s c = find_from c s 0"

text \<open>
  The slices \<^verbatim>\<open>s[:i]\<close> and \<^verbatim>\<open>s[i:]\<close>; a negative index counts from the
  end and both are clamped to the string, as in Python.
\<close>

definition slice_to :: "string \<Rightarrow> int \<Rightarrow> string" where
  "slice_to s i = (if i < 0 then take (nat (int (length s) + i)) s else take (nat i) s)"

definition slice_from :: "string \<Rightarrow> int \<Rightarrow> string" where
  "slice_from s i = (if i < 0 then drop (nat (int (length s) + i)) s else drop (nat i) s)"

text \<open>Decimal digits, \<^verbatim>\<open>int(s)\<close> on a string and \<^verbatim>\<open>str(n)\<close> on a natural number.\<close>

definition is_digit :: "char \<Rightarrow> bool" where
  "is_digit c = (c \<in> set ''0123456789'')"

definition digit_val :: "char \<Rightarrow> nat" where
  "digit_val c = of_char c - 48"

definition digit_chr :: "nat \<Rightarrow> char" where
  "digit_chr d = char_of (48 + d)"

definition dec_val :: "string \<Rightarrow> nat" where
  "dec_val ds = foldl (\<lambda>a c. 10 * a + digit_val c) 0 ds"

definition is_space :: "char \<Rightarrow> bool" where
  "is_space c = (c \<in> set [CHR '' '', CHR 0x09, CHR 0x0A, CHR 0x0B, CHR 0x0C, CHR 0x0D])"

definition strip :: "string \<Rightarrow> string" where
  "strip s = rev (dropWhile is_space (rev (dropWhile is_space s)))"

text \<open>
  \<^verbatim>\<open>int(s)\<close> in base 10, as in the Python 2 that the sources are written in:
  surrounding white space is dropped, one sign is allowed, and what is left must be a
  non-empty run of decimal digits; anything else is a \<open>ValueError\<close>.
\<close>

definition py_int :: "string \<Rightarrow> exn + int" where
  "py_int s =
     (let b = strip s;
          neg = (b \<noteq> [] \<and> hd b = CHR ''-'');
          ds = (if b \<noteq> [] \<and> (hd b = CHR ''-'' \<or> hd b = CHR ''+'') then tl b else b)
      in if ds = [] \<or> \<not> list_all is_digit ds then Inl ValueError
         else Inr (if neg then - int (dec_val ds) else int (dec_val ds)))"

function str_nat :: "nat \<Rightarrow> string" where
  "str_nat n = (if n < 10 then [digit_chr n] else str_nat (n div 10) @ [digit_chr (n mod 10)])"
  by pat_completeness auto
termination
  by (relation "measure (\<lambda>n. n)") auto

declare str_nat.simps [simp del]

text \<open>
  \<^verbatim>\<open>os.path.join(a, b)\<close> of \<^verbatim>\<open>posixpath\<close> for two components: an absolute
  \<open>b\<close> replaces \<open>a\<close>; otherwise the two are joined with one separator.
\<close>

definition path_join :: "string \<Rightarrow> string \<Rightarrow> string" where
  "path_join a b =
     (if b \<noteq> [] \<and> hd b = CHR ''/'' then b
      else if a = [] \<or> last a = CHR ''/'' then a @ b
      else a @ ''/'' @ b)"

text \<open>
  \<^verbatim>\<open>os.path.basename\<close> and the root part of \<^verbatim>\<open>os.path.splitext\<close>: the
  extension starts at the last dot, unless only dots stand before it.
\<close>

definition basename :: "string \<Rightarrow> string" where
  "basename p = rev (takeWhile (\<lambda>c. c \<noteq> CHR ''/'') (rev p))"

definition splitext_root :: "string \<Rightarrow> string" where
  "splitext_root p =
     (let stem = rev (tl (dropWhile (\<lambda>c. c \<noteq> CHR ''.'') (rev p)))
      in if CHR ''.'' \<in> set p \<and> list_ex (\<lambda>c. c \<noteq> CHR ''.'') stem then stem else p)"

section \<open>Data model\<close>

text \<open>
  The values of the option parser built by \<^verbatim>\<open>_setup_optparse\<close>, restricted to the
  options that the application itself reads. An option without a value is \<open>None\<close>.
\<close>

record options =
  loglevel :: string
  logfile :: "string option"
  print_log :: bool
  final_time :: "real option"
  time_step :: "real option"
  output_name :: string
  freq :: int
  detailed_output :: bool
  output_dir :: string
  integration :: "int option"
  restart_file :: "string option"
  rescale_dt :: real
  with_zoltan :: bool
  zoltan_lb_method :: string
  zoltan_weights :: bool
  ghost_layers :: real
  zoltan_debug_level :: string
  update_cell_sizes :: bool
  parallel_scale_factor :: real
  parallel_output_mode :: string
  cmd_line :: bool
  xml_rpc :: "string option"
  multiproc :: "string option"

text \<open>A particle array, as far as the application looks at it.\<close>

record particle_array =
  pa_name :: string
  is_static :: bool
  num_particles :: nat

text \<open>
  What \<^verbatim>\<open>load(restart_file)\<close> returns: a dictionary with the keys \<^verbatim>\<open>arrays\<close>
  (a dictionary from names to particle arrays, in its iteration order) and
  \<^verbatim>\<open>solver_data\<close> (a dictionary with the keys \<^verbatim>\<open>t\<close>, \<^verbatim>\<open>dt\<close> and
  \<^verbatim>\<open>count\<close>). A missing key is \<open>None\<close>. Python floats are read as reals.
\<close>

record solver_data =
  sd_t :: "real option"
  sd_dt :: "real option"
  sd_count :: "int option"

record checkpoint =
  ck_arrays :: "(string \<times> particle_array) list option"
  ck_solver_data :: "solver_data option"

text \<open>The MPI communicator, and the partition manager of one group of arrays.\<close>

record comm =
  comm_size :: nat
  comm_rank :: nat

datatype pkind = Dynamic | Static

record zpm =
  zpm_dim :: int
  zpm_particles :: "particle_array list"
  zpm_lb_method :: string
  zpm_obj_weight_dim :: string
  zpm_ghost_layers :: real
  zpm_update_cell_sizes :: bool
  zpm_radius_scale :: real
  zpm_params :: "(string \<times> string) list"
  initial_update :: bool

text \<open>
  The calls that leave the application: the checkpoint loader, the particle factory
  (with the value of \<^verbatim>\<open>empty\<close>), the partitioning service and the barrier.
\<close>

datatype call =
  Load string
| Factory bool
| ZNew pkind
| ZSetParam pkind string string
| ZUpdate pkind
| Barrier

text \<open>The solver, as far as the application reads and writes it.\<close>

record solver =
  solver_t :: real
  solver_dt :: real
  solver_count :: int
  solver_tf :: real
  solver_dim :: int
  kernel_radius_scale :: real
  parallel_manager :: "zpm option"
  parallel_manager_static :: "zpm option"
  solver_rank :: nat
  solver_pid :: nat
  solver_comm :: "comm option"
  in_parallel :: bool
  output_fname :: string
  print_freq :: int
  output_printing_level :: bool
  output_directory :: string
  solver_parallel_output_mode :: string

record log_state =
  log_level :: int
  log_file :: "string option"
  stream_handlers :: nat

datatype interface =
  CommandlineInterface
| XMLRPCInterface string int
| MultiprocessingInterface string int string bool

text \<open>
  What the module finds around it: whether MPI and Zoltan could be imported, the
  world communicator, \<^verbatim>\<open>sys.argv[0]\<close>, \<^verbatim>\<open>os.path.abspath\<close>, the checkpoint
  loader of \<^verbatim>\<open>utils\<close>, and the partition manager class of
  \<^verbatim>\<open>pysph.parallel.parallel_manager\<close>: the value its constructor gives
  \<^verbatim>\<open>initial_update\<close> and what its \<^verbatim>\<open>update()\<close> does to the manager.
\<close>

record env =
  Has_MPI :: bool
  Has_Zoltan :: bool
  COMM_WORLD :: comm
  argv0 :: string
  abspath :: "string \<Rightarrow> string"
  load :: "string \<Rightarrow> exn + checkpoint"
  zpm_new_initial_update :: bool
  zpm_update :: "zpm \<Rightarrow> exn + zpm"

text \<open>The application object.\<close>

record app =
  fname :: string
  comm :: "comm option"
  num_procs :: nat
  rank :: nat
  path :: "string option"
  logger :: "log_state option"
  the_solver :: "solver option"
  particles :: "particle_array list"
  particles_static :: "particle_array list"
  particles_dynamic :: "particle_array list"
  pm :: "zpm option"
  pm_static :: "zpm option"
  interfaces :: "interface list"
  calls :: "call list"

definition bindE :: "exn + 'a \<Rightarrow> ('a \<Rightarrow> exn + 'b) \<Rightarrow> exn + 'b" where
  "bindE m f = (case m of Inl x \<Rightarrow> Inl x | Inr v \<Rightarrow> f v)"

section \<open>Construction, options and logging\<close>

text \<open>
  \<^verbatim>\<open>Application.__init__\<close>: the file name defaults to \<^verbatim>\<open>sys.argv[0].split('.')[0]\<close>;
  the process count and the rank come from the world communicator when MPI is there,
  and are 1 and 0 otherwise. The attributes that later methods create start empty.
\<close>

definition Application_init :: "env \<Rightarrow> string option \<Rightarrow> app" where
  "Application_init e fn =
     \<lparr> fname = (case fn of None \<Rightarrow> takeWhile (\<lambda>c. c \<noteq> CHR ''.'') (argv0 e) | Some f \<Rightarrow> f),
       comm = (if Has_MPI e then Some (COMM_WORLD e) else None),
       num_procs = (if Has_MPI e then comm_size (COMM_WORLD e) else 1),
       rank = (if Has_MPI e then comm_rank (COMM_WORLD e) else 0),
       path = None, logger = None, the_solver = None,
       particles = [], particles_static = [], particles_dynamic = [],
       pm = None, pm_static = None, interfaces = [], calls = [] \<rparr>"

text \<open>The defaults that \<^verbatim>\<open>_setup_optparse\<close> gives the options.\<close>

definition default_options :: "string \<Rightarrow> options" where
  "default_options fn =
     \<lparr> loglevel = ''warning'', logfile = None, print_log = False,
       final_time = None, time_step = None, output_name = fn, freq = 100,
       detailed_output = False, output_dir = fn @ ''_output'', integration = None,
       restart_file = None, rescale_dt = 1,
       with_zoltan = True, zoltan_lb_method = ''RCB'', zoltan_weights = True,
       ghost_layers = 3, zoltan_debug_level = ''0'',
       update_cell_sizes = False, parallel_scale_factor = 2,
       parallel_output_mode = ''collected'',
       cmd_line = False, xml_rpc = None, multiproc = Some ''pysph@0.0.0.0:8800+'' \<rparr>"

text \<open>\<^verbatim>\<open>--no-multiproc\<close> stores the constant \<^verbatim>\<open>None\<close> in \<^verbatim>\<open>multiproc\<close>.\<close>

definition no_multiproc :: "options \<Rightarrow> options" where
  "no_multiproc opts = opts\<lparr>multiproc := None\<rparr>"

text \<open>The dictionary \<^verbatim>\<open>_log_levels\<close>; the outer \<open>None\<close> is a missing key.\<close>

definition log_levels :: "string \<Rightarrow> int option option" where
  "log_levels k =
     (if k = ''debug'' then Some (Some 10)
      else if k = ''info'' then Some (Some 20)
      else if k = ''warning'' then Some (Some 30)
      else if k = ''error'' then Some (Some 40)
      else if k = ''critical'' then Some (Some 50)
      else if k = ''none'' then Some None
      else None)"

text \<open>
  \<^verbatim>\<open>_setup_logging\<close>. The file name that is not given is made from
  \<^verbatim>\<open>sys.argv[0]\<close>. \<open>log_file\<close> holds the file that
  \<^verbatim>\<open>logging.basicConfig\<close> was called with, if it was called.
\<close>

definition log_filename :: "env \<Rightarrow> string option \<Rightarrow> string" where
  "log_filename e filename =
     (case filename of
        None \<Rightarrow> splitext_root (basename (argv0 e)) @ ''.log''
      | Some f \<Rightarrow> f)"

definition setup_logging :: "env \<Rightarrow> app \<Rightarrow> string option \<Rightarrow> int \<Rightarrow> bool \<Rightarrow> exn + app" where
  "setup_logging e a filename0 lvl stream =
     (let filename = log_filename e filename0;
          handlers = (if stream then 1 else 0)
      in if length filename > 0 then
           (case path a of
              None \<Rightarrow> Inl AttributeError
            | Some p \<Rightarrow>
                (let lfn = path_join p filename
                 in if num_procs a > 1
                    then Inr (a\<lparr>logger := Some \<lparr>log_level = lvl, log_file = Some lfn,
                                                 stream_handlers = handlers\<rparr>\<rparr>)
                    else Inr (a\<lparr>logger := Some \<lparr>log_level = lvl, log_file = None,
                                                 stream_handlers = handlers\<rparr>\<rparr>)))
         else Inr (a\<lparr>logger := Some \<lparr>log_level = lvl, log_file = None,
                                      stream_handlers = handlers\<rparr>\<rparr>))"

text \<open>
  \<^verbatim>\<open>_process_command_line\<close>, from the parsed options on (the parsing itself is
  \<^verbatim>\<open>optparse\<close>'s). The output directory that \<^verbatim>\<open>mkdir\<close> creates is on the
  disk, not in the application, and is left out.
\<close>

definition process_command_line :: "env \<Rightarrow> options \<Rightarrow> app \<Rightarrow> exn + app" where
  "process_command_line e opts a =
     (case log_levels (loglevel opts) of
        None \<Rightarrow> Inl KeyError
      | Some level \<Rightarrow>
          (let a' = a\<lparr>path := Some (abspath e (output_dir opts))\<rparr>
           in case level of
                None \<Rightarrow> Inr a'
              | Some l \<Rightarrow> setup_logging e a' (logfile opts) l (print_log opts)))"

section \<open>Creating and distributing the particles\<close>

text \<open>
  \<^verbatim>\<open>_create_particles\<close>, in the three steps of its body. The first (lines 346 to
  374) fills \<^verbatim>\<open>self.particles\<close>: rank 0 reads the restart file when one is given
  and calls the factory otherwise; every other rank calls the factory with
  \<^verbatim>\<open>empty=True\<close>. The factory is the callable with its other arguments already
  bound, as a function of \<^verbatim>\<open>empty\<close>.
\<close>

definition bootstrap ::
  "env \<Rightarrow> options \<Rightarrow> (bool \<Rightarrow> exn + particle_array list) \<Rightarrow> app \<Rightarrow> exn + app" where
  "bootstrap e opts particle_factory a =
     (if rank a = 0 then
        (case restart_file opts of
           Some f \<Rightarrow>
             (case load e f of
                Inl x \<Rightarrow> Inl x
              | Inr data \<Rightarrow>
                  (case ck_arrays data of
                     None \<Rightarrow> Inl KeyError
                   | Some arrays \<Rightarrow>
                       (case ck_solver_data data of
                          None \<Rightarrow> Inl KeyError
                        | Some sd \<Rightarrow>
                            (case (sd_t sd, sd_dt sd, sd_count sd) of
                               (Some t, Some dt, Some cnt) \<Rightarrow>
                                 (case the_solver a of
                                    None \<Rightarrow> Inl AttributeError
                                  | Some s \<Rightarrow>
                                      Inr (a\<lparr>particles :=
                                               List.map_filter (map_of arrays) (map fst arrays),
                                             the_solver :=
                                               Some (s\<lparr>solver_t := t,
                                                       solver_dt := dt * rescale_dt opts,
                                                       solver_count := cnt\<rparr>),
                                             calls := calls a @ [Load f]\<rparr>))
                             | _ \<Rightarrow> Inl KeyError))))
         | None \<Rightarrow>
             (case particle_factory False of
                Inl x \<Rightarrow> Inl x
              | Inr ps \<Rightarrow> Inr (a\<lparr>particles := ps, calls := calls a @ [Factory False]\<rparr>)))
      else
        (case particle_factory True of
           Inl x \<Rightarrow> Inl x
         | Inr ps \<Rightarrow> Inr (a\<lparr>particles := ps, calls := calls a @ [Factory True]\<rparr>)))"

text \<open>The second step (lines 376 to 383): the loop that sorts the arrays into two lists.\<close>

fun classify ::
  "particle_array list \<Rightarrow> particle_array list \<times> particle_array list
     \<Rightarrow> particle_array list \<times> particle_array list" where
  "classify [] (st, dy) = (st, dy)"
| "classify (pa # pas) (st, dy) =
     (if is_static pa then classify pas (st @ [pa], dy) else classify pas (st, dy @ [pa]))"

definition classify_particles :: "app \<Rightarrow> app" where
  "classify_particles a =
     (case classify (particles a) ([], []) of
        (st, dy) \<Rightarrow> a\<lparr>particles_static := st, particles_dynamic := dy\<rparr>)"

text \<open>
  Modelled from the spec: the class \<^verbatim>\<open>ZoltanParallelManagerGeometric\<close> of
  \<^verbatim>\<open>pysph.parallel.parallel_manager\<close> is not part of the sources at hand. Its
  constructor keeps its arguments; \<open>zpm_params\<close> collects the
  \<^verbatim>\<open>Zoltan_Set_Param\<close> calls on its \<^verbatim>\<open>pz\<close>.
\<close>

definition ZoltanParallelManagerGeometric ::
  "env \<Rightarrow> int \<Rightarrow> particle_array list \<Rightarrow> string \<Rightarrow> string \<Rightarrow> real \<Rightarrow> bool \<Rightarrow> real \<Rightarrow> zpm" where
  "ZoltanParallelManagerGeometric e d ps lb owd gl ucs rs =
     \<lparr> zpm_dim = d, zpm_particles = ps, zpm_lb_method = lb, zpm_obj_weight_dim = owd,
       zpm_ghost_layers = gl, zpm_update_cell_sizes = ucs, zpm_radius_scale = rs,
       zpm_params = [], initial_update = zpm_new_initial_update e \<rparr>"

definition Zoltan_Set_Param :: "string \<Rightarrow> string \<Rightarrow> zpm \<Rightarrow> zpm" where
  "Zoltan_Set_Param k v m = m\<lparr>zpm_params := zpm_params m @ [(k, v)]\<rparr>"

text \<open>
  The end of \<^verbatim>\<open>_create_particles\<close> (lines 456 to 458): the solver gets both
  managers.
\<close>

definition set_parallel_managers :: "app \<Rightarrow> exn + app" where
  "set_parallel_managers a =
     (case the_solver a of
        None \<Rightarrow> Inl AttributeError
      | Some s \<Rightarrow>
          Inr (a\<lparr>the_solver :=
                   Some (s\<lparr>parallel_manager := pm a,
                           parallel_manager_static := pm_static a\<rparr>)\<rparr>))"

text \<open>
  The third step (lines 385 to 458). After the update of the static manager the source
  writes \<^verbatim>\<open>pm.initial_update = False\<close> once more: the flag of the dynamic manager,
  not of the static one.
\<close>

definition init_partition :: "env \<Rightarrow> options \<Rightarrow> app \<Rightarrow> exn + app" where
  "init_partition e opts a0 =
     (let a = a0\<lparr>pm := None, pm_static := None\<rparr>
      in if num_procs a > 1 then
           (if with_zoltan opts \<and> \<not> (Has_Zoltan e \<and> Has_MPI e) then Inl RuntimeError
            else if \<not> with_zoltan opts then Inl ValueError
            else
              (case the_solver a of
                 None \<Rightarrow> Inl AttributeError
               | Some s \<Rightarrow>
                   (let obj_weight_dim = (if zoltan_weights opts then ''1'' else ''0'');
                        radius_scale = parallel_scale_factor opts * kernel_radius_scale s;
                        new = (\<lambda>ps. ZoltanParallelManagerGeometric e (solver_dim s) ps
                                 (zoltan_lb_method opts) obj_weight_dim (ghost_layers opts)
                                 (update_cell_sizes opts) radius_scale);
                        params = (\<lambda>m. Zoltan_Set_Param ''DEBUG_MEMORY'' ''0''
                                   (Zoltan_Set_Param ''DEBUG_LEVEL'' (zoltan_debug_level opts) m));
                        trace = (\<lambda>k. [ZNew k,
                                       ZSetParam k ''DEBUG_LEVEL'' (zoltan_debug_level opts),
                                       ZSetParam k ''DEBUG_MEMORY'' ''0'', ZUpdate k])
                    in case zpm_update e (params (new (particles_dynamic a))) of
                         Inl x \<Rightarrow> Inl x
                       | Inr m \<Rightarrow>
                           (let a1 = a\<lparr>pm := Some (m\<lparr>initial_update := False\<rparr>),
                                       calls := calls a @ trace Dynamic\<rparr>
                            in bindE
                                 (if length (particles_static a1) > 0 then
                                    (case zpm_update e (params (new (particles_static a1))) of
                                       Inl x \<Rightarrow> Inl x
                                     | Inr ms \<Rightarrow>
                                         Inr (a1\<lparr>pm := map_option (\<lambda>d. d\<lparr>initial_update := False\<rparr>) (pm a1),
                                                 pm_static := Some ms,
                                                 calls := calls a1 @ trace Static\<rparr>))
                                  else Inr a1)
                                 (\<lambda>a2. case comm a2 of
                                          None \<Rightarrow> Inl AttributeError
                                        | Some c \<Rightarrow>
                                            set_parallel_managers
                                              (a2\<lparr>calls := calls a2 @ [Barrier]\<rparr>))))))
         else set_parallel_managers a)"

definition create_particles ::
  "env \<Rightarrow> options \<Rightarrow> (bool \<Rightarrow> exn + particle_array list) \<Rightarrow> app \<Rightarrow> exn + app" where
  "create_particles e opts particle_factory a =
     bindE (bootstrap e opts particle_factory a)
       (\<lambda>a1. init_partition e opts (classify_particles a1))"

section \<open>Setting up the solver and its interfaces\<close>

text \<open>
  The output file name of \<^verbatim>\<open>setup\<close> (lines 546 to 552).
\<close>

definition solver_fname :: "env \<Rightarrow> app \<Rightarrow> options \<Rightarrow> string" where
  "solver_fname e a opts =
     (let fname = output_name opts
      in if Has_MPI e then
           (if num_procs a > 1 then fname @ ''_'' @ str_nat (rank a) else fname)
         else fname)"

text \<open>
  Lines 538 to 576 of \<^verbatim>\<open>setup\<close>: the options that are written to the solver.
  The setters of the solver (\<^verbatim>\<open>set_time_step\<close>, \<^verbatim>\<open>set_output_fname\<close>, ...)
  store their argument.
\<close>

definition configure_solver :: "env \<Rightarrow> app \<Rightarrow> options \<Rightarrow> solver \<Rightarrow> solver" where
  "configure_solver e a opts s0 =
     (let s1 = (case time_step opts of None \<Rightarrow> s0 | Some dt \<Rightarrow> s0\<lparr>solver_dt := dt\<rparr>);
          s2 = (case final_time opts of None \<Rightarrow> s1 | Some tf \<Rightarrow> s1\<lparr>solver_tf := tf\<rparr>);
          s3 = s2\<lparr>solver_rank := rank a, solver_pid := rank a, solver_comm := comm a\<rparr>;
          s4 = (if num_procs a > 1 then s3\<lparr>in_parallel := True\<rparr> else s3)
      in s4\<lparr>output_fname := solver_fname e a opts,
             print_freq := freq opts,
             output_printing_level := detailed_output opts,
             output_directory := abspath e (output_dir opts),
             solver_parallel_output_mode := parallel_output_mode opts\<rparr>)"

text \<open>The address of the XML-RPC interface (lines 612 to 616).\<close>

definition parse_xml_rpc :: "string \<Rightarrow> exn + interface" where
  "parse_xml_rpc addr =
     (let idx = find_chr addr CHR '':'';
          host = (if idx = -1 then ''0.0.0.0'' else slice_to addr idx)
      in bindE (py_int (slice_from addr (idx + 1))) (\<lambda>port. Inr (XMLRPCInterface host port)))"

text \<open>
  The address of the multiprocessing interface (lines 621 to 636). \<^verbatim>\<open>port[-1]\<close>
  on an empty string is an \<open>IndexError\<close>.
\<close>

definition parse_multiproc :: "string \<Rightarrow> exn + interface" where
  "parse_multiproc addr0 =
     (let idx0 = find_chr addr0 CHR ''@'';
          authkey = (if idx0 = -1 then ''pysph'' else slice_to addr0 idx0);
          addr = slice_from addr0 (idx0 + 1);
          idx = find_chr addr CHR '':'';
          host = (if idx = -1 then ''0.0.0.0'' else slice_to addr idx);
          port = slice_from addr (idx + 1)
      in if port = [] then Inl IndexError
         else
           (let try_next_port = (last port = CHR ''+'');
                port' = (if last port = CHR ''+'' then slice_to port (-1) else port)
            in bindE (py_int port')
                 (\<lambda>p. Inr (MultiprocessingInterface host p authkey try_next_port))))"

definition add_interface :: "interface \<Rightarrow> app \<Rightarrow> app" where
  "add_interface i a = a\<lparr>interfaces := interfaces a @ [i]\<rparr>"

text \<open>
  Lines 603 to 641 of \<^verbatim>\<open>setup\<close>. An option that is \<^verbatim>\<open>None\<close> or the empty
  string is false in Python. The last statement writes to \<^verbatim>\<open>self.logger\<close>, which
  exists only when \<^verbatim>\<open>_setup_logging\<close> has run.
\<close>

definition attach_interfaces :: "options \<Rightarrow> app \<Rightarrow> exn + app" where
  "attach_interfaces opts a =
     (if rank a = 0 then
        (let a1 = (if cmd_line opts then add_interface CommandlineInterface a else a)
         in bindE
              (case xml_rpc opts of
                 None \<Rightarrow> Inr a1
               | Some addr \<Rightarrow>
                   if addr = [] then Inr a1
                   else bindE (parse_xml_rpc addr) (\<lambda>i. Inr (add_interface i a1)))
              (\<lambda>a2. case multiproc opts of
                       None \<Rightarrow> Inr a2
                     | Some addr \<Rightarrow>
                         if addr = [] then Inr a2
                         else bindE (parse_multiproc addr)
                                (\<lambda>i. case logger a2 of
                                        None \<Rightarrow> Inl AttributeError
                                      | Some l \<Rightarrow> Inr (add_interface i a2))))
      else Inr a)"

text \<open>
  \<^verbatim>\<open>setup\<close>, from the parsed options on. The calls into the solver
  (\<^verbatim>\<open>get_options\<close>, \<^verbatim>\<open>setup_solver\<close>, \<^verbatim>\<open>setup\<close>), the neighbour search and
  the command manager's constructor are not part of the application's own state and
  are left out.
\<close>

definition Application_setup ::
  "env \<Rightarrow> solver \<Rightarrow> options \<Rightarrow> (bool \<Rightarrow> exn + particle_array list) \<Rightarrow> app \<Rightarrow> exn + app" where
  "Application_setup e s opts particle_factory a =
     bindE (process_command_line e opts (a\<lparr>the_solver := Some s\<rparr>))
       (\<lambda>a1. bindE (create_particles e opts particle_factory a1)
          (\<lambda>a2. attach_interfaces opts
                   (a2\<lparr>the_solver := map_option (configure_solver e a2 opts) (the_solver a2)\<rparr>)))"

text \<open>
  The address form of the specification, \<^verbatim>\<open>[authkey@][host:]port[+]\<close>, written
  out: each optional part with its separator, then the port digits, then the mark.
\<close>

definition address_form :: "string option \<Rightarrow> string option \<Rightarrow> string \<Rightarrow> bool \<Rightarrow> string" where
  "address_form authkey host digits search =
     (case authkey of None \<Rightarrow> [] | Some k \<Rightarrow> k @ ''@'') @
     (case host of None \<Rightarrow> [] | Some h \<Rightarrow> h @ '':'') @
     digits @ (if search then ''+'' else [])"

section \<open>Observations on a result\<close>

text \<open>The log file that a call of \<^verbatim>\<open>_setup_logging\<close> has configured, if any.\<close>

definition configured_log_file :: "exn + app \<Rightarrow> string option" where
  "configured_log_file r =
     (case r of
        Inl x \<Rightarrow> None
      | Inr a \<Rightarrow> (case logger a of None \<Rightarrow> None | Some l \<Rightarrow> log_file l))"

text \<open>
  A rank is a data source when it reads the restart file or asks the factory for the
  full arrays; the calls of the partitioning run are those to the partition managers
  and the barrier.
\<close>

fun is_source_call :: "call \<Rightarrow> bool" where
  "is_source_call (Load f) = True"
| "is_source_call (Factory emp) = (\<not> emp)"
| "is_source_call c = False"

fun is_partition_call :: "call \<Rightarrow> bool" where
  "is_partition_call (Load f) = False"
| "is_partition_call (Factory emp) = False"
| "is_partition_call c = True"

definition new_calls :: "app \<Rightarrow> exn + app \<Rightarrow> call list" where
  "new_calls a r = (case r of Inl x \<Rightarrow> [] | Inr a' \<Rightarrow> drop (length (calls a)) (calls a'))"

text \<open>The time, time step and iteration count of the solver after a step that succeeded.\<close>

definition solver_clock :: "exn + app \<Rightarrow> (real \<times> real \<times> int) option" where
  "solver_clock r =
     (case r of
        Inl x \<Rightarrow> None
      | Inr a \<Rightarrow> map_option (\<lambda>s. (solver_t s, solver_dt s, solver_count s)) (the_solver a))"

section \<open>Example inputs\<close>

text \<open>
  A world of \<open>n\<close> processes seen from rank \<open>r\<close> (one process when MPI is missing),
  with a partition manager that starts with \<^verbatim>\<open>initial_update\<close> set and whose
  update leaves its attributes alone; no restart file can be loaded.
\<close>

definition example_env :: "bool \<Rightarrow> nat \<Rightarrow> nat \<Rightarrow> env" where
  "example_env mpi n r =
     \<lparr> Has_MPI = mpi, Has_Zoltan = mpi, COMM_WORLD = \<lparr>comm_size = n, comm_rank = r\<rparr>,
       argv0 = ''run.py'', abspath = (\<lambda>p. ''/work/'' @ p),
       load = (\<lambda>f. Inl (Raised ''IOError'')),
       zpm_new_initial_update = True, zpm_update = Inr \<rparr>"

definition example_solver :: solver where
  "example_solver =
     \<lparr> solver_t = 0, solver_dt = 1, solver_count = 0, solver_tf = 1, solver_dim = 1,
       kernel_radius_scale = 2, parallel_manager = None, parallel_manager_static = None,
       solver_rank = 0, solver_pid = 0, solver_comm = None, in_parallel = False,
       output_fname = [], print_freq = 1, output_printing_level = False,
       output_directory = [], solver_parallel_output_mode = [] \<rparr>"

text \<open>
  An application on rank 0 of a serial run that has the logger of the default level
  and no interface yet.
\<close>

definition example_app :: app where
  "example_app =
     (Application_init (example_env False 1 0) None)
       \<lparr>logger := Some \<lparr>log_level = 30, log_file = None, stream_handlers = 0\<rparr>\<rparr>"

text \<open>A restart file written at iteration 100, and an environment that can load it.\<close>

definition example_checkpoint :: checkpoint where
  "example_checkpoint =
     \<lparr> ck_arrays = Some [(''fluid'', \<lparr>pa_name = ''fluid'', is_static = False, num_particles = 11\<rparr>)],
       ck_solver_data = Some \<lparr>sd_t = Some (5 / 2), sd_dt = Some (1 / 100), sd_count = Some 100\<rparr> \<rparr>"

definition example_restart_env :: env where
  "example_restart_env = (example_env False 1 0)\<lparr>load := (\<lambda>f. Inr example_checkpoint)\<rparr>"

text \<open>
  A factory after \<^verbatim>\<open>make_particles\<close> of \<^verbatim>\<open>sd.py\<close>: a fluid and a solid with
  11 particles each, the solid taken as static; asked for empty arrays, both have none.
\<close>

definition make_particles :: "bool \<Rightarrow> exn + particle_array list" where
  "make_particles emp =
     Inr [\<lparr>pa_name = ''fluid'', is_static = False, num_particles = (if emp then 0 else 11)\<rparr>,
          \<lparr>pa_name = ''solid'', is_static = True, num_particles = (if emp then 0 else 11)\<rparr>]"

section \<open>Facts about the string primitives\<close>

lemma find_from_absent: "c \<notin> set s \<Longrightarrow> find_from c s i = -1"
  by (induction s arbitrary: i) auto

lemma find_from_first: "c \<notin> set p \<Longrightarrow> find_from c (p @ c # r) i = i + int (length p)"
  by (induction p arbitrary: i) auto

lemma find_chr_absent: "c \<notin> set s \<Longrightarrow> find_chr s c = -1"
  by (simp add: find_chr_def find_from_absent)

lemma find_chr_first: "c \<notin> set p \<Longrightarrow> find_chr (p @ c # r) c = int (length p)"
  by (simp add: find_chr_def find_from_first)

lemma slice_to_prefix: "slice_to (p @ r) (int (length p)) = p"
  by (simp add: slice_to_def)

lemma slice_from_suffix: "slice_from (p @ c # r) (int (length p) + 1) = r"
  by (simp add: slice_from_def nat_add_distrib)

lemma slice_from_zero: "slice_from s 0 = s"
  by (simp add: slice_from_def)

lemma slice_to_minus_one: "slice_to (ds @ [c]) (-1) = ds"
  by (simp add: slice_to_def)

lemma digit_not_space: "is_digit c \<Longrightarrow> \<not> is_space c"
  by (auto simp: is_digit_def is_space_def)

lemma digit_not_sign: "is_digit c \<Longrightarrow> c \<noteq> CHR ''-'' \<and> c \<noteq> CHR ''+'' \<and> c \<noteq> CHR ''@'' \<and> c \<noteq> CHR '':''"
  by (auto simp: is_digit_def)

lemma strip_digits: "ds \<noteq> [] \<Longrightarrow> list_all is_digit ds \<Longrightarrow> strip ds = ds"
proof -
  assume ne: "ds \<noteq> []" and dg: "list_all is_digit ds"
  from ne dg have h: "\<not> is_space (hd ds)"
    by (cases ds) (auto simp: digit_not_space)
  from ne dg have l: "\<not> is_space (hd (rev ds))"
    by (cases ds rule: rev_cases) (auto simp: digit_not_space)
  from ne h have 1: "dropWhile is_space ds = ds" by (cases ds) auto
  from ne l have 2: "dropWhile is_space (rev ds) = rev ds" by (cases "rev ds") auto
  show ?thesis by (simp add: strip_def 1 2)
qed

lemma py_int_digits: "ds \<noteq> [] \<Longrightarrow> list_all is_digit ds \<Longrightarrow> py_int ds = Inr (int (dec_val ds))"
  by (cases ds) (auto simp: py_int_def strip_digits Let_def dest: digit_not_sign)

lemma last_digit_not_plus:
  "ds \<noteq> [] \<Longrightarrow> list_all is_digit ds \<Longrightarrow> last ds \<noteq> CHR ''+''"
  by (cases ds rule: rev_cases) (auto dest: digit_not_sign)

lemma digits_no_sep:
  "list_all is_digit ds \<Longrightarrow> CHR ''@'' \<notin> set ds \<and> CHR '':'' \<notin> set ds \<and> CHR ''+'' \<notin> set ds"
  by (induction ds) (auto dest: digit_not_sign)

section \<open>The address of the multiprocessing interface\<close>

text \<open>
  C2. An address of the form \<^verbatim>\<open>[authkey@][host:]port[+]\<close> (an authkey without
  \<^verbatim>\<open>@\<close>, a host without \<^verbatim>\<open>:\<close>, and without \<^verbatim>\<open>@\<close> when no authkey stands
  before it, a non-empty run of digits as port) parses to the authkey before the first
  \<^verbatim>\<open>@\<close> (``pysph'' when there is none), the host before the first \<^verbatim>\<open>:\<close> of the
  rest (``0.0.0.0'' when there is none), the decimal value of the digits as port, and
  the port search is on exactly when the address ends with \<^verbatim>\<open>+\<close>.
\<close>

theorem parse_multiproc_address_form:
  assumes "ds \<noteq> []" and "list_all is_digit ds"
    and "case authkey of None \<Rightarrow> True | Some k \<Rightarrow> CHR ''@'' \<notin> set k"
    and "case host of None \<Rightarrow> True
           | Some h \<Rightarrow> CHR '':'' \<notin> set h \<and> (authkey = None \<longrightarrow> CHR ''@'' \<notin> set h)"
  shows "parse_multiproc (address_form authkey host ds search) =
           Inr (MultiprocessingInterface
                  (case host of None \<Rightarrow> ''0.0.0.0'' | Some h \<Rightarrow> h)
                  (int (dec_val ds))
                  (case authkey of None \<Rightarrow> ''pysph'' | Some k \<Rightarrow> k)
                  search)
         \<and> (search \<longleftrightarrow> last (address_form authkey host ds search) = CHR ''+'')"
proof -
  define port where "port = ds @ (if search then ''+'' else [])"
  define rest where "rest = (case host of None \<Rightarrow> [] | Some h \<Rightarrow> h @ '':'') @ port"
  define addr where "addr = address_form authkey host ds search"
  have addr: "addr = (case authkey of None \<Rightarrow> [] | Some k \<Rightarrow> k @ ''@'') @ rest"
    by (simp add: addr_def rest_def port_def address_form_def)
  have nosep: "CHR ''@'' \<notin> set port" "CHR '':'' \<notin> set port"
    using digits_no_sep [OF assms(2)] by (auto simp: port_def)
  have port: "port \<noteq> []" "(last port = CHR ''+'') = search"
    "(if search then slice_to port (-1) else port) = ds"
    using assms(1) last_digit_not_plus [OF assms(1,2)] slice_to_minus_one [of ds "CHR ''+''"]
    by (cases search; simp add: port_def)+
  have host_idx: "find_chr rest CHR '':'' = (case host of None \<Rightarrow> -1 | Some h \<Rightarrow> int (length h))"
  proof (cases host)
    case None
    then show ?thesis using nosep by (simp add: rest_def find_chr_absent)
  next
    case (Some h)
    with assms(4) have "CHR '':'' \<notin> set h" by simp
    then show ?thesis using Some find_chr_first [of "CHR '':''" h port] by (simp add: rest_def)
  qed
  have host_rest: "slice_from rest (find_chr rest CHR '':'' + 1) = port"
  proof (cases host)
    case None
    then show ?thesis using host_idx by (simp add: rest_def slice_from_zero)
  next
    case (Some h)
    then show ?thesis
      using host_idx slice_from_suffix [of h "CHR '':''" port] by (simp add: rest_def)
  qed
  have host_val: "(if find_chr rest CHR '':'' = -1 then ''0.0.0.0''
                   else slice_to rest (find_chr rest CHR '':''))
                  = (case host of None \<Rightarrow> ''0.0.0.0'' | Some h \<Rightarrow> h)"
  proof (cases host)
    case None
    then show ?thesis using host_idx by simp
  next
    case (Some h)
    then show ?thesis
      using host_idx slice_to_prefix [of h "CHR '':'' # port"] by (simp add: rest_def)
  qed
  have key_idx: "find_chr addr CHR ''@'' = (case authkey of None \<Rightarrow> -1 | Some k \<Rightarrow> int (length k))"
  proof (cases authkey)
    case None
    have "CHR ''@'' \<notin> set rest"
      using None assms(4) nosep by (cases host) (auto simp: rest_def)
    then show ?thesis using None by (simp add: addr find_chr_absent)
  next
    case (Some k)
    with assms(3) have "CHR ''@'' \<notin> set k" by simp
    then show ?thesis using Some find_chr_first [of "CHR ''@''" k rest] by (simp add: addr)
  qed
  have key_rest: "slice_from addr (find_chr addr CHR ''@'' + 1) = rest"
  proof (cases authkey)
    case None
    then show ?thesis using key_idx by (simp add: addr slice_from_zero)
  next
    case (Some k)
    then show ?thesis
      using key_idx slice_from_suffix [of k "CHR ''@''" rest] by (simp add: addr)
  qed
  have key_val: "(if find_chr addr CHR ''@'' = -1 then ''pysph''
                  else slice_to addr (find_chr addr CHR ''@''))
                 = (case authkey of None \<Rightarrow> ''pysph'' | Some k \<Rightarrow> k)"
  proof (cases authkey)
    case None
    then show ?thesis using key_idx by simp
  next
    case (Some k)
    then show ?thesis
      using key_idx slice_to_prefix [of k "CHR ''@'' # rest"] by (simp add: addr)
  qed
  have int_port: "py_int (if last port = CHR ''+'' then slice_to port (-1) else port)
                  = Inr (int (dec_val ds))"
    using port py_int_digits [OF assms(1,2)] by simp
  have "parse_multiproc addr =
           Inr (MultiprocessingInterface
                  (case host of None \<Rightarrow> ''0.0.0.0'' | Some h \<Rightarrow> h)
                  (int (dec_val ds))
                  (case authkey of None \<Rightarrow> ''pysph'' | Some k \<Rightarrow> k)
                  search)"
    unfolding parse_multiproc_def Let_def key_rest host_rest key_val host_val int_port
    using port(1,2) by (simp add: bindE_def)
  moreover have "last addr = last port"
    using port(1) by (simp add: addr rest_def)
  ultimately show ?thesis using port(2) by (simp add: addr_def)
qed

text \<open>The two addresses that the specification gives as examples.\<close>

theorem parse_multiproc_address_form_witness:
  "parse_multiproc ''secret@host:9000+'' = Inr (MultiprocessingInterface ''host'' 9000 ''secret'' True)
   \<and> parse_multiproc ''1234'' = Inr (MultiprocessingInterface ''0.0.0.0'' 1234 ''pysph'' False)"
  using parse_multiproc_address_form [of "''9000''" "Some ''secret''" "Some ''host''" True]
        parse_multiproc_address_form [of "''1234''" None None False]
  by (simp add: address_form_def is_digit_def dec_val_def digit_val_def)

section \<open>Static and dynamic arrays\<close>

lemma classify_filter:
  "classify ps (st, dy) = (st @ filter is_static ps, dy @ filter (\<lambda>p. \<not> is_static p) ps)"
  by (induction ps arbitrary: st dy) auto


text \<open>
  C7. The loop puts the static arrays into one list and the others into a second one,
  each in the order of \<^verbatim>\<open>self.particles\<close>; every array is in exactly one of the
  two lists, and \<^verbatim>\<open>self.particles\<close> itself stays as it was.
\<close>

theorem classify_particles_split:
  "particles_static (classify_particles a) = filter is_static (particles a)
   \<and> particles_dynamic (classify_particles a) = filter (\<lambda>pa. \<not> is_static pa) (particles a)
   \<and> mset (particles_static (classify_particles a)) + mset (particles_dynamic (classify_particles a))
       = mset (particles a)
   \<and> particles (classify_particles a) = particles a"
  by (simp add: classify_particles_def classify_filter)

section \<open>Logging\<close>

text \<open>
  C10. \<^verbatim>\<open>_setup_logging\<close> configures a log file exactly when there is more than
  one process and the chosen file name is not empty (the file is then the name joined
  to \<^verbatim>\<open>self.path\<close>); with one process no log file is configured, whatever the
  name is.
\<close>

theorem setup_logging_file:
  "configured_log_file (setup_logging e a filename lvl stream) =
     (if num_procs a > 1 \<and> log_filename e filename \<noteq> []
      then map_option (\<lambda>p. path_join p (log_filename e filename)) (path a)
      else None)
   \<and> (num_procs a = 1 \<longrightarrow> configured_log_file (setup_logging e a filename lvl stream) = None)"
  by (auto simp: setup_logging_def configured_log_file_def Let_def split: option.splits)

theorem setup_logging_file_witness:
  "configured_log_file
     (setup_logging (example_env False 1 0)
        ((Application_init (example_env False 1 0) None)\<lparr>path := Some ''/work/run_output''\<rparr>)
        (Some ''run.log'') 30 True) = None
   \<and> configured_log_file
     (setup_logging (example_env True 4 0)
        ((Application_init (example_env True 4 0) None)\<lparr>path := Some ''/work/run_output''\<rparr>)
        (Some ''run.log'') 30 True) = Some ''/work/run_output/run.log''"
  using setup_logging_file [of "example_env False 1 0"
          "(Application_init (example_env False 1 0) None)\<lparr>path := Some ''/work/run_output''\<rparr>"
          "Some ''run.log''" 30 True]
        setup_logging_file [of "example_env True 4 0"
          "(Application_init (example_env True 4 0) None)\<lparr>path := Some ''/work/run_output''\<rparr>"
          "Some ''run.log''" 30 True]
  by (simp add: Application_init_def example_env_def log_filename_def path_join_def)

section \<open>What the steps of \<^verbatim>\<open>_create_particles\<close> leave alone\<close>

lemma bootstrap_keeps:
  "bootstrap e opts f a = Inr a' \<Longrightarrow>
     num_procs a' = num_procs a \<and> rank a' = rank a \<and> comm a' = comm a
     \<and> logger a' = logger a \<and> interfaces a' = interfaces a \<and> path a' = path a
     \<and> (the_solver a = None \<longleftrightarrow> the_solver a' = None)"
  by (auto simp: bootstrap_def split: if_splits option.splits sum.splits)

lemma classify_particles_keeps:
  "num_procs (classify_particles a) = num_procs a \<and> rank (classify_particles a) = rank a
   \<and> comm (classify_particles a) = comm a \<and> logger (classify_particles a) = logger a
   \<and> interfaces (classify_particles a) = interfaces a \<and> path (classify_particles a) = path a
   \<and> the_solver (classify_particles a) = the_solver a
   \<and> calls (classify_particles a) = calls a \<and> particles (classify_particles a) = particles a"
  by (simp add: classify_particles_def split: prod.splits)

lemma set_parallel_managers_Inr:
  "set_parallel_managers a = Inr a' \<Longrightarrow>
     \<exists>s. the_solver a = Some s
       \<and> a' = a\<lparr>the_solver := Some (s\<lparr>parallel_manager := pm a, parallel_manager_static := pm_static a\<rparr>)\<rparr>"
  by (auto simp: set_parallel_managers_def split: option.splits)

lemma init_partition_single:
  "\<not> num_procs a > 1 \<Longrightarrow>
     init_partition e opts a = set_parallel_managers (a\<lparr>pm := None, pm_static := None\<rparr>)"
  by (simp add: init_partition_def Let_def)

lemma init_partition_keeps:
  "init_partition e opts a = Inr a' \<Longrightarrow>
     num_procs a' = num_procs a \<and> rank a' = rank a \<and> comm a' = comm a
     \<and> logger a' = logger a \<and> interfaces a' = interfaces a \<and> path a' = path a
     \<and> particles a' = particles a
     \<and> (\<exists>s. the_solver a = Some s
           \<and> the_solver a' = Some (s\<lparr>parallel_manager := pm a', parallel_manager_static := pm_static a'\<rparr>))"
  unfolding init_partition_def Let_def bindE_def
  by (auto split: if_splits option.splits sum.splits dest!: set_parallel_managers_Inr)

lemma create_particles_Inr:
  "create_particles e opts f a = Inr a' \<Longrightarrow>
     \<exists>a1. bootstrap e opts f a = Inr a1 \<and> init_partition e opts (classify_particles a1) = Inr a'"
  by (auto simp: create_particles_def bindE_def split: sum.splits)

lemma bootstrap_new_calls:
  "bootstrap e opts f a = Inr a' \<Longrightarrow>
     \<exists>c. calls a' = calls a @ [c] \<and> \<not> is_partition_call c \<and> (is_source_call c \<longleftrightarrow> rank a = 0)"
  by (auto simp: bootstrap_def split: if_splits option.splits sum.splits)

section \<open>One process: no partitioning\<close>

text \<open>
  C5. With one process the partitioning step returns, makes no call, leaves both
  \<^verbatim>\<open>self.pm\<close> and \<^verbatim>\<open>self.pm_static\<close> at \<^verbatim>\<open>None\<close> and hands
  \<^verbatim>\<open>None\<close> to the solver twice; whenever \<^verbatim>\<open>_create_particles\<close> as a whole
  returns, the same holds and none of its calls went to the partitioning.
\<close>

theorem partition_single_process:
  assumes "num_procs a = 1" and "the_solver a = Some s"
  shows "init_partition e opts a =
           Inr (a\<lparr>pm := None, pm_static := None,
                  the_solver := Some (s\<lparr>parallel_manager := None,
                                        parallel_manager_static := None\<rparr>)\<rparr>)
         \<and> (\<forall>a'. create_particles e opts f a = Inr a' \<longrightarrow>
               pm a' = None \<and> pm_static a' = None
               \<and> map_option parallel_manager (the_solver a') = Some None
               \<and> map_option parallel_manager_static (the_solver a') = Some None
               \<and> \<not> list_ex is_partition_call (new_calls a (Inr a')))"
proof -
  have 1: "init_partition e opts a =
           Inr (a\<lparr>pm := None, pm_static := None,
                  the_solver := Some (s\<lparr>parallel_manager := None,
                                        parallel_manager_static := None\<rparr>)\<rparr>)"
    using assms by (simp add: init_partition_single set_parallel_managers_def)
  have 2: "pm a' = None \<and> pm_static a' = None
               \<and> map_option parallel_manager (the_solver a') = Some None
               \<and> map_option parallel_manager_static (the_solver a') = Some None
               \<and> \<not> list_ex is_partition_call (new_calls a (Inr a'))"
    if "create_particles e opts f a = Inr a'" for a'
  proof -
    from that obtain a1 where b: "bootstrap e opts f a = Inr a1"
      and i: "init_partition e opts (classify_particles a1) = Inr a'"
      using create_particles_Inr by blast
    from b have n: "num_procs (classify_particles a1) = 1"
      using bootstrap_keeps [OF b] assms(1) by (simp add: classify_particles_keeps)
    from bootstrap_new_calls [OF b] obtain c where
      c: "calls a1 = calls a @ [c]" "\<not> is_partition_call c" by blast
    from i n have "set_parallel_managers ((classify_particles a1)\<lparr>pm := None, pm_static := None\<rparr>) = Inr a'"
      by (simp add: init_partition_single)
    from set_parallel_managers_Inr [OF this] c show ?thesis
      by (auto simp: new_calls_def classify_particles_keeps)
  qed
  from 1 2 show ?thesis by blast
qed

theorem partition_single_process_witness:
  "map_sum id (\<lambda>a. (pm a, pm_static a, calls a,
                    map_option parallel_manager (the_solver a),
                    map_option parallel_manager_static (the_solver a)))
     (init_partition (example_env False 1 0) (default_options ''run'')
        ((Application_init (example_env False 1 0) None)\<lparr>the_solver := Some example_solver\<rparr>))
   = Inr (None, None, [], Some None, Some None)"
  using partition_single_process [of
          "(Application_init (example_env False 1 0) None)\<lparr>the_solver := Some example_solver\<rparr>"
          example_solver "example_env False 1 0" "default_options ''run''" make_particles]
  by (simp add: Application_init_def example_env_def)

section \<open>The ranks other than 0\<close>

lemma filter_rank0: "0 < n \<Longrightarrow> (\<And>r. r < n \<Longrightarrow> P r \<longleftrightarrow> r = 0) \<Longrightarrow> filter P [0..<n] = [0::nat]"
proof -
  assume n: "0 < n" and P: "\<And>r. r < n \<Longrightarrow> P r \<longleftrightarrow> r = 0"
  have "filter P [0..<n] = filter (\<lambda>r. r = 0) [0..<n]"
    by (rule filter_cong) (auto simp: P)
  moreover have "[0..<n] = 0 # [1..<n]" using n by (simp add: upt_conv_Cons)
  moreover have "filter (\<lambda>r. r = 0) (0 # [1..<n]) = [0]" by (simp add: filter_empty_conv)
  ultimately show ?thesis by metis
qed

text \<open>
  C6. A rank above 0 calls the factory with \<^verbatim>\<open>empty=True\<close> and nothing else:
  its outcome is the factory's, and neither the restart path nor the loader has any
  influence on it. A rank that gets through the first step has acted as a data source
  (read the restart file or asked for the full arrays) exactly when it is rank 0; so
  among the ranks below \<open>n\<close>, where rank 0 gets through, rank 0 is the only one.
\<close>

theorem bootstrap_other_ranks:
  "(rank a > 0 \<longrightarrow>
      bootstrap e opts f a =
        (case f True of
           Inl x \<Rightarrow> Inl x
         | Inr ps \<Rightarrow> Inr (a\<lparr>particles := ps, calls := calls a @ [Factory True]\<rparr>))
      \<and> bootstrap (e\<lparr>load := l\<rparr>) (opts\<lparr>restart_file := rf\<rparr>) f a = bootstrap e opts f a)
   \<and> (\<forall>a'. bootstrap e opts f a = Inr a' \<longrightarrow>
          (list_ex is_source_call (new_calls a (Inr a')) \<longleftrightarrow> rank a = 0))
   \<and> (0 < n \<and> \<not> isl (bootstrap e opts f (a\<lparr>rank := 0\<rparr>)) \<longrightarrow>
        filter (\<lambda>r. list_ex is_source_call
                      (new_calls (a\<lparr>rank := r\<rparr>) (bootstrap e opts f (a\<lparr>rank := r\<rparr>))))
          [0..<n] = [0])"
proof -
  have A: "rank a > 0 \<longrightarrow>
      bootstrap e opts f a =
        (case f True of
           Inl x \<Rightarrow> Inl x
         | Inr ps \<Rightarrow> Inr (a\<lparr>particles := ps, calls := calls a @ [Factory True]\<rparr>))
      \<and> bootstrap (e\<lparr>load := l\<rparr>) (opts\<lparr>restart_file := rf\<rparr>) f a = bootstrap e opts f a"
    by (simp add: bootstrap_def)
  have B: "list_ex is_source_call (new_calls b (Inr a')) \<longleftrightarrow> rank b = 0"
    if "bootstrap e opts f b = Inr a'" for a' b
    using bootstrap_new_calls [OF that] by (auto simp: new_calls_def)
  have C: "filter (\<lambda>r. list_ex is_source_call
                      (new_calls (a\<lparr>rank := r\<rparr>) (bootstrap e opts f (a\<lparr>rank := r\<rparr>))))
          [0..<n] = [0]"
    if n: "0 < n" and ok: "\<not> isl (bootstrap e opts f (a\<lparr>rank := 0\<rparr>))"
  proof (rule filter_rank0 [OF n])
    fix r assume "r < n"
    show "list_ex is_source_call
            (new_calls (a\<lparr>rank := r\<rparr>) (bootstrap e opts f (a\<lparr>rank := r\<rparr>))) \<longleftrightarrow> r = 0"
    proof (cases "bootstrap e opts f (a\<lparr>rank := r\<rparr>)")
      case (Inl x)
      with ok have "r \<noteq> 0" by (cases "r = 0") auto
      with Inl show ?thesis by (simp add: new_calls_def)
    next
      case (Inr a')
      from B [OF Inr] Inr show ?thesis by simp
    qed
  qed
  from A B C show ?thesis by blast
qed

theorem bootstrap_other_ranks_witness:
  "map_sum id (\<lambda>a. (particles a, calls a))
     (bootstrap (example_env True 4 2)
        ((default_options ''run'')\<lparr>restart_file := Some ''run_100.npz''\<rparr>)
        make_particles (Application_init (example_env True 4 2) None))
   = Inr ([\<lparr>pa_name = ''fluid'', is_static = False, num_particles = 0\<rparr>,
           \<lparr>pa_name = ''solid'', is_static = True, num_particles = 0\<rparr>], [Factory True])
   \<and> filter (\<lambda>r. list_ex is_source_call
                 (new_calls ((Application_init (example_env True 4 2) None)\<lparr>rank := r\<rparr>)
                    (bootstrap (example_env True 4 2) (default_options ''run'') make_particles
                       ((Application_init (example_env True 4 2) None)\<lparr>rank := r\<rparr>))))
        [0..<4] = [0]"
  using bootstrap_other_ranks [of "Application_init (example_env True 4 2) None"
          "example_env True 4 2" "(default_options ''run'')\<lparr>restart_file := Some ''run_100.npz''\<rparr>"
          make_particles "load (example_env True 4 2)" "Some ''run_100.npz''" 4]
        bootstrap_other_ranks [of "Application_init (example_env True 4 2) None"
          "example_env True 4 2" "default_options ''run''"
          make_particles "load (example_env True 4 2)" None 4]
  by (simp add: Application_init_def example_env_def default_options_def make_particles_def
        bootstrap_def)

section \<open>Restart\<close>

text \<open>
  C1. On rank 0, with a restart path whose file loads and has the arrays and the three
  solver fields, the solver gets the time and the count of the file unchanged and the
  time step of the file multiplied by the rescale factor (so the time step itself when
  the factor is 1). This is the state after the first step, after every return of
  \<^verbatim>\<open>_create_particles\<close>, and \<^verbatim>\<open>_create_particles\<close> does return with one
  process.
\<close>

theorem restart_restores_clock:
  assumes "rank a = 0" and "restart_file opts = Some f" and "load e f = Inr ck"
    and "ck_arrays ck = Some arrs" and "ck_solver_data ck = Some sd"
    and "sd_t sd = Some t" and "sd_dt sd = Some dt" and "sd_count sd = Some cnt"
    and "the_solver a = Some s"
  shows "solver_clock (bootstrap e opts fac a) = Some (t, dt * rescale_dt opts, cnt)
         \<and> (rescale_dt opts = 1 \<longrightarrow> solver_clock (bootstrap e opts fac a) = Some (t, dt, cnt))
         \<and> (\<forall>a'. create_particles e opts fac a = Inr a' \<longrightarrow>
               solver_clock (Inr a') = Some (t, dt * rescale_dt opts, cnt))
         \<and> (num_procs a = 1 \<longrightarrow>
               solver_clock (create_particles e opts fac a) = Some (t, dt * rescale_dt opts, cnt))"
proof -
  define a1 where "a1 = a\<lparr>particles := List.map_filter (map_of arrs) (map fst arrs),
                          the_solver := Some (s\<lparr>solver_t := t, solver_dt := dt * rescale_dt opts,
                                                solver_count := cnt\<rparr>),
                          calls := calls a @ [Load f]\<rparr>"
  have b: "bootstrap e opts fac a = Inr a1"
    using assms by (simp add: bootstrap_def a1_def)
  have 1: "solver_clock (bootstrap e opts fac a) = Some (t, dt * rescale_dt opts, cnt)"
    by (simp add: b solver_clock_def a1_def)
  have 3: "solver_clock (Inr a') = Some (t, dt * rescale_dt opts, cnt)"
    if "create_particles e opts fac a = Inr a'" for a'
  proof -
    from that b have "init_partition e opts (classify_particles a1) = Inr a'"
      by (simp add: create_particles_def bindE_def)
    from init_partition_keeps [OF this] show ?thesis
      by (auto simp: solver_clock_def classify_particles_keeps a1_def)
  qed
  have 4: "solver_clock (create_particles e opts fac a) = Some (t, dt * rescale_dt opts, cnt)"
    if "num_procs a = 1"
  proof -
    have "\<not> num_procs (classify_particles a1) > 1"
      using that by (simp add: classify_particles_keeps a1_def)
    then have "init_partition e opts (classify_particles a1)
                 = set_parallel_managers ((classify_particles a1)\<lparr>pm := None, pm_static := None\<rparr>)"
      by (rule init_partition_single)
    then show ?thesis
      by (simp add: create_particles_def bindE_def b set_parallel_managers_def
            classify_particles_keeps solver_clock_def a1_def)
  qed
  from 1 3 4 show ?thesis by simp
qed

theorem restart_restores_clock_witness:
  "solver_clock
     (create_particles example_restart_env
        ((default_options ''run'')\<lparr>restart_file := Some ''run_100.npz''\<rparr>) make_particles
        ((Application_init example_restart_env None)\<lparr>the_solver := Some example_solver\<rparr>))
     = Some (5 / 2, 1 / 100, 100)
   \<and> solver_clock
     (bootstrap example_restart_env
        ((default_options ''run'')\<lparr>restart_file := Some ''run_100.npz'', rescale_dt := 1 / 2\<rparr>)
        make_particles
        ((Application_init example_restart_env None)\<lparr>the_solver := Some example_solver\<rparr>))
     = Some (5 / 2, 1 / 200, 100)"
proof -
  let ?a = "(Application_init example_restart_env None)\<lparr>the_solver := Some example_solver\<rparr>"
  let ?o1 = "(default_options ''run'')\<lparr>restart_file := Some ''run_100.npz''\<rparr>"
  let ?o2 = "(default_options ''run'')\<lparr>restart_file := Some ''run_100.npz'', rescale_dt := 1 / 2\<rparr>"
  let ?sd = "\<lparr>sd_t = Some (5 / 2), sd_dt = Some (1 / 100), sd_count = Some 100\<rparr>"
  have r: "rank ?a = 0" and n: "num_procs ?a = 1"
    by (simp_all add: Application_init_def example_restart_env_def example_env_def)
  have f1: "restart_file ?o1 = Some ''run_100.npz''" and f2: "restart_file ?o2 = Some ''run_100.npz''"
    by simp_all
  have l: "load example_restart_env ''run_100.npz'' = Inr example_checkpoint"
    by (simp add: example_restart_env_def)
  have arr: "ck_arrays example_checkpoint
               = Some [(''fluid'', \<lparr>pa_name = ''fluid'', is_static = False, num_particles = 11\<rparr>)]"
    and sd: "ck_solver_data example_checkpoint = Some ?sd"
    by (simp_all add: example_checkpoint_def)
  have t: "sd_t ?sd = Some (5 / 2)" and dt: "sd_dt ?sd = Some (1 / 100)"
    and cnt: "sd_count ?sd = Some 100"
    by simp_all
  have s: "the_solver ?a = Some example_solver" by simp
  have d1: "rescale_dt ?o1 = 1" and d2: "rescale_dt ?o2 = 1 / 2"
    by (simp_all add: default_options_def)
  from restart_restores_clock [OF r f1 l arr sd t dt cnt s, of make_particles] n d1
  have 1: "solver_clock (create_particles example_restart_env ?o1 make_particles ?a)
             = Some (5 / 2, 1 / 100, 100)"
    by simp
  from restart_restores_clock [OF r f2 l arr sd t dt cnt s, of make_particles] d2
  have 2: "solver_clock (bootstrap example_restart_env ?o2 make_particles ?a)
             = Some (5 / 2, 1 / 200, 100)"
    by simp
  from 1 2 show ?thesis by simp
qed

section \<open>The factory on rank 0\<close>

text \<open>
  C3, as the code has it. On rank 0 without a restart path the first step calls the
  factory without \<^verbatim>\<open>empty\<close> and takes over its outcome: an exception of the
  factory leaves as it is, and the list it returns becomes \<^verbatim>\<open>self.particles\<close>,
  empty or not.
\<close>

theorem bootstrap_factory_outcome:
  assumes "rank a = 0" and "restart_file opts = None"
  shows "bootstrap e opts f a =
           (case f False of
              Inl x \<Rightarrow> Inl x
            | Inr ps \<Rightarrow> Inr (a\<lparr>particles := ps, calls := calls a @ [Factory False]\<rparr>))"
  using assms by (simp add: bootstrap_def)

theorem bootstrap_factory_outcome_witness:
  "map_sum id (\<lambda>a. (particles a, calls a))
     (bootstrap (example_env False 1 0) (default_options ''run'') make_particles
        (Application_init (example_env False 1 0) None))
   = Inr ([\<lparr>pa_name = ''fluid'', is_static = False, num_particles = 11\<rparr>,
           \<lparr>pa_name = ''solid'', is_static = True, num_particles = 11\<rparr>], [Factory False])"
  using bootstrap_factory_outcome [of "Application_init (example_env False 1 0) None"
          "default_options ''run''" "example_env False 1 0" make_particles]
  by (simp add: Application_init_def example_env_def default_options_def make_particles_def)

text \<open>
  C3, as the specification has it, fails: a factory that returns no arrays lets
  \<^verbatim>\<open>_create_particles\<close> return with no arrays, and a factory that raises an
  \<^verbatim>\<open>IOError\<close> makes it raise that \<^verbatim>\<open>IOError\<close>.
\<close>

theorem bootstrap_empty_factory_counterexample:
  "map_sum id particles
     (create_particles (example_env False 1 0) (default_options ''run'') (\<lambda>emp. Inr [])
        ((Application_init (example_env False 1 0) None)\<lparr>the_solver := Some example_solver\<rparr>))
   = Inr []
   \<and> create_particles (example_env False 1 0) (default_options ''run'')
        (\<lambda>emp. Inl (Raised ''IOError''))
        ((Application_init (example_env False 1 0) None)\<lparr>the_solver := Some example_solver\<rparr>)
   = Inl (Raised ''IOError'')"
  by (simp add: create_particles_def bootstrap_def bindE_def classify_particles_def
        init_partition_def set_parallel_managers_def Let_def
        Application_init_def example_env_def default_options_def)

section \<open>Decimal strings\<close>

lemma digit_val_chr: "d < 10 \<Longrightarrow> digit_val (digit_chr d) = d"
  by (simp add: digit_val_def digit_chr_def)

lemma dec_val_snoc: "dec_val (ds @ [c]) = 10 * dec_val ds + digit_val c"
  by (simp add: dec_val_def)

lemma dec_val_str_nat: "dec_val (str_nat n) = n"
proof (induction n rule: str_nat.induct)
  case (1 n)
  show ?case
  proof (cases "n < 10")
    case True
    then show ?thesis by (subst str_nat.simps) (simp add: dec_val_def digit_val_chr)
  next
    case False
    with 1 have "dec_val (str_nat (n div 10)) = n div 10" by simp
    with False show ?thesis
      by (subst str_nat.simps) (simp add: dec_val_snoc digit_val_chr)
  qed
qed

lemma str_nat_inj: "str_nat m = str_nat n \<Longrightarrow> m = n"
  by (metis dec_val_str_nat)

lemma str_nat_2: "str_nat 2 = ''2''"
  by code_simp

section \<open>What \<^verbatim>\<open>setup\<close> leaves alone\<close>

lemma process_command_line_keeps:
  "process_command_line e opts a = Inr a' \<Longrightarrow>
     num_procs a' = num_procs a \<and> rank a' = rank a \<and> comm a' = comm a
     \<and> interfaces a' = interfaces a \<and> the_solver a' = the_solver a
     \<and> (log_levels (loglevel opts) \<noteq> Some None \<longrightarrow> logger a' \<noteq> None)"
  by (auto simp: process_command_line_def setup_logging_def Let_def
        split: option.splits if_splits)

lemma create_particles_keeps:
  assumes "create_particles e opts f a = Inr a'"
  shows "num_procs a' = num_procs a \<and> rank a' = rank a \<and> comm a' = comm a
         \<and> logger a' = logger a \<and> interfaces a' = interfaces a \<and> the_solver a' \<noteq> None"
proof -
  from create_particles_Inr [OF assms] obtain a1 where
    b: "bootstrap e opts f a = Inr a1"
    and i: "init_partition e opts (classify_particles a1) = Inr a'" by blast
  from bootstrap_keeps [OF b] init_partition_keeps [OF i] show ?thesis
    by (auto simp: classify_particles_keeps)
qed

lemma attach_interfaces_keeps:
  "attach_interfaces opts a = Inr a' \<Longrightarrow>
     the_solver a' = the_solver a \<and> rank a' = rank a \<and> num_procs a' = num_procs a"
  by (auto simp: attach_interfaces_def add_interface_def bindE_def Let_def
        split: if_splits option.splits sum.splits)

lemma Application_setup_Inr:
  "Application_setup e s opts f a = Inr a' \<Longrightarrow>
     \<exists>a1 a2. process_command_line e opts (a\<lparr>the_solver := Some s\<rparr>) = Inr a1
       \<and> create_particles e opts f a1 = Inr a2
       \<and> attach_interfaces opts
            (a2\<lparr>the_solver := map_option (configure_solver e a2 opts) (the_solver a2)\<rparr>) = Inr a'"
  by (auto simp: Application_setup_def bindE_def split: sum.splits)

lemma Application_setup_context:
  assumes "Application_setup e s opts f (Application_init e fn) = Inr a'"
  shows "num_procs a' = (if Has_MPI e then comm_size (COMM_WORLD e) else 1)
         \<and> rank a' = (if Has_MPI e then comm_rank (COMM_WORLD e) else 0)"
proof -
  from Application_setup_Inr [OF assms] obtain a1 a2 where
    p: "process_command_line e opts ((Application_init e fn)\<lparr>the_solver := Some s\<rparr>) = Inr a1"
    and cp: "create_particles e opts f a1 = Inr a2"
    and at: "attach_interfaces opts
               (a2\<lparr>the_solver := map_option (configure_solver e a2 opts) (the_solver a2)\<rparr>) = Inr a'"
    by blast
  from process_command_line_keeps [OF p] create_particles_keeps [OF cp]
    attach_interfaces_keeps [OF at]
  show ?thesis by (simp add: Application_init_def)
qed

section \<open>The output file name\<close>

lemma configure_solver_fname:
  "output_fname (configure_solver e a opts s) = solver_fname e a opts"
  by (simp add: configure_solver_def Let_def)

lemma solver_fname_init:
  "num_procs a = (if Has_MPI e then n else 1) \<Longrightarrow>
     solver_fname e a opts =
       (if num_procs a > 1 then output_name opts @ ''_'' @ str_nat (rank a) else output_name opts)"
  by (simp add: solver_fname_def Let_def)

text \<open>
  C8. In every run that gets through \<^verbatim>\<open>setup\<close>, the file name given to the solver
  is the base name followed by \<^verbatim>\<open>_\<close> and the decimal rank when there is more than
  one process, and the base name itself otherwise (so with one process); the process
  count and the rank are those of the world communicator, or 1 and 0 without MPI, and
  two different ranks never get the same suffixed name.
\<close>

theorem output_name_per_rank:
  assumes "Application_setup e s opts f (Application_init e fn) = Inr a'"
  shows "map_option output_fname (the_solver a') =
           Some (if num_procs a' > 1 then output_name opts @ ''_'' @ str_nat (rank a')
                 else output_name opts)
         \<and> num_procs a' = (if Has_MPI e then comm_size (COMM_WORLD e) else 1)
         \<and> rank a' = (if Has_MPI e then comm_rank (COMM_WORLD e) else 0)
         \<and> (\<forall>r. r \<noteq> rank a' \<longrightarrow>
               output_name opts @ ''_'' @ str_nat r \<noteq> output_name opts @ ''_'' @ str_nat (rank a'))"
proof -
  from Application_setup_Inr [OF assms] obtain a1 a2 where
    p: "process_command_line e opts ((Application_init e fn)\<lparr>the_solver := Some s\<rparr>) = Inr a1"
    and cp: "create_particles e opts f a1 = Inr a2"
    and at: "attach_interfaces opts
               (a2\<lparr>the_solver := map_option (configure_solver e a2 opts) (the_solver a2)\<rparr>) = Inr a'"
    by blast
  from process_command_line_keeps [OF p] create_particles_keeps [OF cp]
  have n2: "num_procs a2 = (if Has_MPI e then comm_size (COMM_WORLD e) else 1)"
    and r2: "rank a2 = (if Has_MPI e then comm_rank (COMM_WORLD e) else 0)"
    and s2: "the_solver a2 \<noteq> None"
    by (simp_all add: Application_init_def)
  from s2 obtain s' where s': "the_solver a2 = Some s'" by auto
  from attach_interfaces_keeps [OF at] s'
  have sol: "the_solver a' = Some (configure_solver e a2 opts s')"
    and n: "num_procs a' = num_procs a2" and r: "rank a' = rank a2"
    by simp_all
  have "output_fname (configure_solver e a2 opts s') = solver_fname e a2 opts"
    by (rule configure_solver_fname)
  also have "\<dots> = (if num_procs a2 > 1 then output_name opts @ ''_'' @ str_nat (rank a2)
                   else output_name opts)"
    using n2 by (rule solver_fname_init)
  finally have 1: "map_option output_fname (the_solver a') =
           Some (if num_procs a' > 1 then output_name opts @ ''_'' @ str_nat (rank a')
                 else output_name opts)"
    by (simp add: sol n r)
  have 4: "output_name opts @ ''_'' @ str_nat r \<noteq> output_name opts @ ''_'' @ str_nat (rank a')"
    if "r \<noteq> rank a'" for r
    using that str_nat_inj [of r "rank a'"] by auto
  from 1 4 n r n2 r2 show ?thesis by simp
qed

lemma example_run_parallel:
  "\<not> isl (Application_setup (example_env True 4 2) example_solver (default_options ''run'')
             make_particles (Application_init (example_env True 4 2) None))"
  by (simp add: Application_setup_def process_command_line_def setup_logging_def log_filename_def
        log_levels_def create_particles_def bootstrap_def classify_particles_def
        init_partition_def set_parallel_managers_def ZoltanParallelManagerGeometric_def
        Zoltan_Set_Param_def attach_interfaces_def
        bindE_def Let_def path_join_def basename_def splitext_root_def
        Application_init_def example_env_def default_options_def make_particles_def)

theorem output_name_per_rank_witness:
  "map_sum id (\<lambda>a. map_option output_fname (the_solver a))
     (Application_setup (example_env True 4 2) example_solver (default_options ''run'')
        make_particles (Application_init (example_env True 4 2) None))
   = Inr (Some ''run_2'')"
proof -
  from example_run_parallel obtain a' where
    run: "Application_setup (example_env True 4 2) example_solver (default_options ''run'')
            make_particles (Application_init (example_env True 4 2) None) = Inr a'"
    by (cases "Application_setup (example_env True 4 2) example_solver (default_options ''run'')
            make_particles (Application_init (example_env True 4 2) None)") auto
  note T = output_name_per_rank [OF run]
  from T have n: "num_procs a' = 4" and r: "rank a' = 2"
    by (simp_all add: example_env_def)
  from T have "map_option output_fname (the_solver a') =
                 Some (if num_procs a' > 1
                       then output_name (default_options ''run'') @ ''_'' @ str_nat (rank a')
                       else output_name (default_options ''run''))"
    by (rule conjunct1)
  then have "map_option output_fname (the_solver a') = Some ''run_2''"
    by (simp add: n r default_options_def str_nat_2)
  with run show ?thesis by simp
qed

section \<open>The interfaces that are attached by default\<close>

lemma parse_default_address:
  "parse_multiproc ''pysph@0.0.0.0:8800+'' = Inr (MultiprocessingInterface ''0.0.0.0'' 8800 ''pysph'' True)"
  by (simp add: parse_multiproc_def find_chr_def slice_to_def slice_from_def py_int_def strip_def
        is_space_def is_digit_def dec_val_def digit_val_def bindE_def Let_def)

lemma attach_default:
  assumes "rank a = 0" and "logger a = Some l"
    and "cmd_line opts = False" and "xml_rpc opts = None"
    and "multiproc opts = Some ''pysph@0.0.0.0:8800+''"
  shows "attach_interfaces opts a =
           Inr (a\<lparr>interfaces := interfaces a @
                     [MultiprocessingInterface ''0.0.0.0'' 8800 ''pysph'' True]\<rparr>)"
  using assms by (simp add: attach_interfaces_def bindE_def parse_default_address add_interface_def)

lemma attach_none:
  assumes "cmd_line opts = False" and "xml_rpc opts = None" and "multiproc opts = None"
  shows "attach_interfaces opts a = Inr a"
  using assms by (simp add: attach_interfaces_def bindE_def)

lemma add_interface_neq: "add_interface i a \<noteq> a"
proof
  assume "add_interface i a = a"
  then have "interfaces (add_interface i a) = interfaces a" by simp
  then show False by (simp add: add_interface_def)
qed

text \<open>
  Without a command line and an XML-RPC interface, rank 0 gets through
  \<^verbatim>\<open>setup\<close> with nothing attached exactly when \<^verbatim>\<open>options.multiproc\<close> is false
  in Python: \<^verbatim>\<open>None\<close> or the empty string (line 619).
\<close>

lemma attach_pool_off_iff:
  assumes "rank a = 0" and "logger a = Some l"
    and "cmd_line opts = False" and "xml_rpc opts = None"
  shows "attach_interfaces opts a = Inr a \<longleftrightarrow> multiproc opts = None \<or> multiproc opts = Some []"
proof (cases "multiproc opts")
  case None
  with assms show ?thesis by (simp add: attach_interfaces_def bindE_def)
next
  case (Some addr)
  show ?thesis
  proof (cases "addr = []")
    case True
    with Some assms show ?thesis by (simp add: attach_interfaces_def bindE_def)
  next
    case False
    show ?thesis
    proof (cases "parse_multiproc addr")
      case (Inl x)
      with False Some assms show ?thesis by (simp add: attach_interfaces_def bindE_def)
    next
      case (Inr i)
      with False Some assms show ?thesis
        by (simp add: attach_interfaces_def bindE_def add_interface_neq)
    qed
  qed
qed

lemma attach_adds_pool:
  assumes "attach_interfaces opts a = Inr a'" and "rank a = 0"
    and "cmd_line opts = False" and "xml_rpc opts = None"
  shows "interfaces a' = interfaces a \<longleftrightarrow> multiproc opts = None \<or> multiproc opts = Some []"
  using assms
  by (auto simp: attach_interfaces_def bindE_def add_interface_def
        split: option.splits if_splits sum.splits)

text \<open>
  C9, as the code has it. With the three interface options at their defaults, rank 0
  (with its logger set up) attaches exactly one more interface, the multiprocessing
  interface on host ``0.0.0.0'', port 8800 with port search and the key ``pysph''; no
  command line and no XML-RPC interface. With \<^verbatim>\<open>--no-multiproc\<close> on top of that
  nothing is attached. A whole run of \<^verbatim>\<open>setup\<close> with the default options ends with
  that one interface on rank 0 and with none on the other ranks. Whatever value \<open>m\<close>
  the option \<^verbatim>\<open>multiproc\<close> is given instead of its default, rank 0 gets through with
  the multiprocessing interface left off exactly when \<open>m\<close> is \<^verbatim>\<open>None\<close> (what
  \<^verbatim>\<open>--no-multiproc\<close> stores) or the empty string, both in the last step of
  \<^verbatim>\<open>setup\<close> and in a whole run of it.
\<close>

theorem default_interfaces:
  assumes "cmd_line opts = cmd_line (default_options fn)"
    and "xml_rpc opts = xml_rpc (default_options fn)"
    and "multiproc opts = multiproc (default_options fn)"
  shows "(rank a = 0 \<and> logger a \<noteq> None \<longrightarrow>
            attach_interfaces opts a =
              Inr (a\<lparr>interfaces := interfaces a @
                        [MultiprocessingInterface ''0.0.0.0'' 8800 ''pysph'' True]\<rparr>))
         \<and> attach_interfaces (no_multiproc opts) a = Inr a
         \<and> (\<forall>a'. Application_setup e s (default_options fn) f (Application_init e fn') = Inr a' \<longrightarrow>
               interfaces a' =
                 (if rank a' = 0 then [MultiprocessingInterface ''0.0.0.0'' 8800 ''pysph'' True]
                  else []))
         \<and> (\<forall>m. rank a = 0 \<and> logger a \<noteq> None \<longrightarrow>
               (attach_interfaces (opts\<lparr>multiproc := m\<rparr>) a = Inr a
                  \<longleftrightarrow> m = None \<or> m = Some []))
         \<and> (\<forall>m a'. Application_setup e s ((default_options fn)\<lparr>multiproc := m\<rparr>) f
                      (Application_init e fn') = Inr a' \<and> rank a' = 0 \<longrightarrow>
               (interfaces a' = [] \<longleftrightarrow> m = None \<or> m = Some []))"
proof -
  have c: "cmd_line opts = False" and x: "xml_rpc opts = None"
    and m: "multiproc opts = Some ''pysph@0.0.0.0:8800+''"
    using assms by (simp_all add: default_options_def)
  have 1: "attach_interfaces opts a =
              Inr (a\<lparr>interfaces := interfaces a @
                        [MultiprocessingInterface ''0.0.0.0'' 8800 ''pysph'' True]\<rparr>)"
    if "rank a = 0" and "logger a \<noteq> None"
    using that attach_default [OF _ _ c x m, of a] by auto
  have 2: "attach_interfaces (no_multiproc opts) a = Inr a"
    by (rule attach_none) (simp_all add: no_multiproc_def c x)
  have 3: "interfaces a' =
                 (if rank a' = 0 then [MultiprocessingInterface ''0.0.0.0'' 8800 ''pysph'' True]
                  else [])"
    if run: "Application_setup e s (default_options fn) f (Application_init e fn') = Inr a'" for a'
  proof -
    let ?o = "default_options fn"
    from Application_setup_Inr [OF run] obtain a1 a2 where
      p: "process_command_line e ?o ((Application_init e fn')\<lparr>the_solver := Some s\<rparr>) = Inr a1"
      and cp: "create_particles e ?o f a1 = Inr a2"
      and at: "attach_interfaces ?o
                 (a2\<lparr>the_solver := map_option (configure_solver e a2 ?o) (the_solver a2)\<rparr>) = Inr a'"
      by blast
    let ?a3 = "a2\<lparr>the_solver := map_option (configure_solver e a2 ?o) (the_solver a2)\<rparr>"
    have lv: "log_levels (loglevel ?o) \<noteq> Some None"
      by (simp add: default_options_def log_levels_def)
    from process_command_line_keeps [OF p] lv
    have "logger a1 \<noteq> None" and "interfaces a1 = []"
      by (simp_all add: Application_init_def)
    with create_particles_keeps [OF cp]
    have lg: "logger ?a3 \<noteq> None" and i0: "interfaces ?a3 = []" by simp_all
    have dc: "cmd_line ?o = False" and dx: "xml_rpc ?o = None"
      and dm: "multiproc ?o = Some ''pysph@0.0.0.0:8800+''"
      by (simp_all add: default_options_def)
    show ?thesis
    proof (cases "rank ?a3 = 0")
      case True
      from lg obtain l where "logger ?a3 = Some l" by auto
      from attach_default [OF True this dc dx dm] at i0 True show ?thesis by auto
    next
      case False
      then have "attach_interfaces ?o ?a3 = Inr ?a3" by (simp add: attach_interfaces_def)
      with at i0 False show ?thesis by auto
    qed
  qed
  have 4: "attach_interfaces (opts\<lparr>multiproc := m'\<rparr>) a = Inr a
             \<longleftrightarrow> m' = None \<or> m' = Some []"
    if r: "rank a = 0" and lg: "logger a \<noteq> None" for m'
  proof -
    from lg obtain l where l: "logger a = Some l" by auto
    from attach_pool_off_iff [OF r l, of "opts\<lparr>multiproc := m'\<rparr>"] c x
    show ?thesis by simp
  qed
  have 5: "interfaces a' = [] \<longleftrightarrow> m' = None \<or> m' = Some []"
    if run: "Application_setup e s ((default_options fn)\<lparr>multiproc := m'\<rparr>) f
               (Application_init e fn') = Inr a'"
      and r: "rank a' = 0" for m' a'
  proof -
    let ?o = "(default_options fn)\<lparr>multiproc := m'\<rparr>"
    from Application_setup_Inr [OF run] obtain a1 a2 where
      p: "process_command_line e ?o ((Application_init e fn')\<lparr>the_solver := Some s\<rparr>) = Inr a1"
      and cp: "create_particles e ?o f a1 = Inr a2"
      and at: "attach_interfaces ?o
                 (a2\<lparr>the_solver := map_option (configure_solver e a2 ?o) (the_solver a2)\<rparr>) = Inr a'"
      by blast
    let ?a3 = "a2\<lparr>the_solver := map_option (configure_solver e a2 ?o) (the_solver a2)\<rparr>"
    from process_command_line_keeps [OF p]
    have "interfaces a1 = []" by (simp add: Application_init_def)
    with create_particles_keeps [OF cp]
    have i0: "interfaces ?a3 = []" by simp
    from attach_interfaces_keeps [OF at] r have r3: "rank ?a3 = 0" by simp
    have dc: "cmd_line ?o = False" and dx: "xml_rpc ?o = None"
      by (simp_all add: default_options_def)
    from attach_adds_pool [OF at r3 dc dx] i0 show ?thesis by simp
  qed
  from 1 2 3 4 5 show ?thesis by blast
qed

lemma example_run_serial:
  "\<not> isl (Application_setup (example_env False 1 0) example_solver (default_options ''run'')
             make_particles (Application_init (example_env False 1 0) None))"
  by (simp add: Application_setup_def process_command_line_def setup_logging_def log_filename_def
        log_levels_def create_particles_def bootstrap_def classify_particles_def
        init_partition_def set_parallel_managers_def attach_interfaces_def add_interface_def
        parse_default_address
        bindE_def Let_def path_join_def basename_def splitext_root_def
        Application_init_def example_env_def default_options_def make_particles_def)

theorem default_interfaces_witness:
  "map_sum id interfaces
     (Application_setup (example_env False 1 0) example_solver (default_options ''run'')
        make_particles (Application_init (example_env False 1 0) None))
   = Inr [MultiprocessingInterface ''0.0.0.0'' 8800 ''pysph'' True]
   \<and> attach_interfaces (default_options ''run'') example_app
      = Inr (example_app\<lparr>interfaces :=
               [MultiprocessingInterface ''0.0.0.0'' 8800 ''pysph'' True]\<rparr>)
   \<and> attach_interfaces (no_multiproc (default_options ''run'')) example_app = Inr example_app
   \<and> attach_interfaces ((default_options ''run'')\<lparr>multiproc := Some []\<rparr>) example_app
      = Inr example_app
   \<and> attach_interfaces ((default_options ''run'')\<lparr>multiproc := Some ''8800''\<rparr>) example_app
      \<noteq> Inr example_app"
proof -
  from example_run_serial obtain a' where
    run: "Application_setup (example_env False 1 0) example_solver (default_options ''run'')
            make_particles (Application_init (example_env False 1 0) None) = Inr a'"
    by (cases "Application_setup (example_env False 1 0) example_solver (default_options ''run'')
            make_particles (Application_init (example_env False 1 0) None)") auto
  from Application_setup_context [OF run] have r: "rank a' = 0"
    by (simp add: example_env_def)
  have r0: "rank example_app = 0" and lg: "logger example_app \<noteq> None"
    and i0: "interfaces example_app = []"
    by (simp_all add: example_app_def Application_init_def example_env_def)
  note T = default_interfaces [where opts = "default_options ''run''" and fn = "''run''"
             and a = example_app
             and e = "example_env False 1 0" and s = example_solver and f = make_particles
             and fn' = None, OF refl refl refl]
  from T run r have 1: "interfaces a' = [MultiprocessingInterface ''0.0.0.0'' 8800 ''pysph'' True]"
    by simp
  from T r0 lg i0 have 2: "attach_interfaces (default_options ''run'') example_app
      = Inr (example_app\<lparr>interfaces :=
               [MultiprocessingInterface ''0.0.0.0'' 8800 ''pysph'' True]\<rparr>)"
    by simp
  from T have 3: "attach_interfaces (no_multiproc (default_options ''run'')) example_app
      = Inr example_app"
    by simp
  from T r0 lg have off: "attach_interfaces ((default_options ''run'')\<lparr>multiproc := m\<rparr>) example_app
      = Inr example_app \<longleftrightarrow> m = None \<or> m = Some []" for m
    by blast
  from off [of "Some []"] have 4:
    "attach_interfaces ((default_options ''run'')\<lparr>multiproc := Some []\<rparr>) example_app
      = Inr example_app"
    by simp
  from off [of "Some ''8800''"] have 5:
    "attach_interfaces ((default_options ''run'')\<lparr>multiproc := Some ''8800''\<rparr>) example_app
      \<noteq> Inr example_app"
    by simp
  from run 1 2 3 4 5 show ?thesis by simp
qed

text \<open>
  C9, as the specification has it, fails in its last part: the explicit disable option
  is not the only way to leave the multiprocessing interface off. A run on rank 0 whose
  \<^verbatim>\<open>--multiproc\<close> value is the empty string, which is not what \<^verbatim>\<open>--no-multiproc\<close>
  stores, gets through \<^verbatim>\<open>setup\<close> with no interface at all.
\<close>

theorem empty_multiproc_counterexample:
  "multiproc ((default_options ''run'')\<lparr>multiproc := Some []\<rparr>)
     \<noteq> multiproc (no_multiproc (default_options ''run''))
   \<and> rank (Application_init (example_env False 1 0) None) = 0
   \<and> map_sum id interfaces
       (Application_setup (example_env False 1 0) example_solver
          ((default_options ''run'')\<lparr>multiproc := Some []\<rparr>)
          make_particles (Application_init (example_env False 1 0) None)) = Inr []"
  by (simp add: Application_setup_def process_command_line_def setup_logging_def log_filename_def
        log_levels_def create_particles_def bootstrap_def classify_particles_def
        init_partition_def set_parallel_managers_def attach_interfaces_def add_interface_def
        bindE_def Let_def path_join_def basename_def splitext_root_def no_multiproc_def
        Application_init_def example_env_def default_options_def make_particles_def)

section \<open>The flag of the static partition manager\<close>

text \<open>
  With more than one process and a static array, the static manager that
  \<^verbatim>\<open>_create_particles\<close> keeps is the one its \<^verbatim>\<open>update()\<close> returned: the
  application writes nothing to it afterwards, while the flag of the dynamic manager
  is cleared.
\<close>

lemma static_manager_untouched:
  assumes "init_partition e opts a = Inr a'" and "num_procs a > 1"
    and "particles_static a \<noteq> []" and "the_solver a = Some s"
  shows "\<exists>ms. zpm_update e
                (Zoltan_Set_Param ''DEBUG_MEMORY'' ''0''
                  (Zoltan_Set_Param ''DEBUG_LEVEL'' (zoltan_debug_level opts)
                    (ZoltanParallelManagerGeometric e (solver_dim s) (particles_static a)
                       (zoltan_lb_method opts) (if zoltan_weights opts then ''1'' else ''0'')
                       (ghost_layers opts) (update_cell_sizes opts)
                       (parallel_scale_factor opts * kernel_radius_scale s)))) = Inr ms
              \<and> pm_static a' = Some ms
              \<and> map_option initial_update (pm a') = Some False"
  using assms unfolding init_partition_def Let_def bindE_def
  by (auto split: if_splits option.splits sum.splits dest!: set_parallel_managers_Inr)

text \<open>
  C4 fails on the code. Two processes, the fluid and the solid of \<^verbatim>\<open>sd.py\<close>, a
  manager class that starts with \<^verbatim>\<open>initial_update\<close> set and whose update does not
  touch it: after \<^verbatim>\<open>_create_particles\<close> the flag of the dynamic manager is
  cleared and the flag of the static manager is still set.
\<close>

theorem static_initial_update_left_set:
  "map_sum id (\<lambda>a. (map_option initial_update (pm a), map_option initial_update (pm_static a)))
     (create_particles (example_env True 2 0) (default_options ''run'') make_particles
        ((Application_init (example_env True 2 0) None)\<lparr>the_solver := Some example_solver\<rparr>))
   = Inr (Some False, Some True)"
  by (simp add: create_particles_def bootstrap_def classify_particles_def
        init_partition_def set_parallel_managers_def ZoltanParallelManagerGeometric_def
        Zoltan_Set_Param_def bindE_def Let_def
        Application_init_def example_env_def default_options_def make_particles_def)

end
